theory Spec2Isabelle
  imports Main "HOL-Library.Word"
begin

section \<open>The local cluster of platform/local/cluster.go\<close>

text \<open>
  The Go file composes a network namespace, an SSH agent, a dnsmasq instance and a
  single-node etcd into one \<open>LocalCluster\<close>. Its collaborators (\<open>NsCreate\<close>,
  \<open>NsEnter\<close>, \<open>NewDnsmasq\<close>, \<open>NewSimpleEtcd\<close>, \<open>network.NewSSHAgent\<close>, the netlink
  calls) live in other files. Each of them is modelled as a step on an explicit
  \<open>world\<close>: it appends its call to the log, and its Go result is read from an
  \<open>env\<close> record, so every theorem below holds for every behaviour of the collaborators.
\<close>

subsection \<open>Values\<close>

text \<open>A Go \<open>error\<close> value, with the text its \<open>Error()\<close> method gives.\<close>

datatype error = Error string

text \<open>A run-time panic: an explicit \<open>panic(msg)\<close>, or one the Go run time raises.\<close>

datatype panic = PanicMsg string | IndexOutOfRange | NilDereference | TypeAssertionFailed

datatype 'a outcome = Returned 'a | Panicked panic

text \<open>\<open>netns.NsHandle\<close> is an integer file descriptor.\<close>

type_synonym NsHandle = int

datatype NsDialer = NsDialer NsHandle

text \<open>
  Modelled from the spec: the types of the lease table (\<open>Dnsmasq\<close>, \<open>Segment\<close>,
  \<open>Interface\<close>, declared in dnsmasq.go) are not among the sources. A segment has a bridge
  name and the interface of the bridge with its list of IPv4 leases; an address of that
  list is taken as four octets, which Go prints in dotted decimal.
\<close>

datatype IP = IPv4 "8 word" "8 word" "8 word" "8 word"

record IPNet =
  IP :: IP
  MaskBits :: nat

record Interface =
  DHCPv4 :: "IPNet list"

record Segment =
  BridgeName :: string
  BridgeIf :: Interface

record Dnsmasq =
  Segments :: "Segment list"

record SimpleEtcd =
  Port :: int

record SSHAgent =
  Socket :: string

text \<open>
  The struct of cluster.go. The three pointer fields are \<open>None\<close> for Go's nil; the
  zero value of the handle is 0.
\<close>

record LocalCluster =
  SSHAgent :: "SSHAgent option"
  Dnsmasq :: "Dnsmasq option"
  SimpleEtcd :: "SimpleEtcd option"
  nshandle :: NsHandle

record TunTap =
  LinkName :: string

text \<open>The implementations of the interface \<open>netlink.Link\<close>, each with its name.\<close>

datatype Link = Bridge string | Device string | Dummy string | Veth string | Tuntap string

text \<open>The command value \<open>NewNsCommand\<close> builds: where it runs and its environment.\<close>

record Cmd =
  CmdNs :: NsHandle
  Path :: string
  Args :: "string list"
  Env :: "string list"

subsection \<open>Formatting\<close>

definition digit :: "nat \<Rightarrow> char" where
  "digit n = ''0123456789'' ! (n mod 10)"

fun fmt_nat :: "nat \<Rightarrow> string" where
  "fmt_nat n = (if n < 10 then [digit n] else fmt_nat (n div 10) @ [digit n])"

declare fmt_nat.simps [simp del]

text \<open>The verb \<open>%d\<close> on an \<open>int\<close>.\<close>

definition fmt_d :: "int \<Rightarrow> string" where
  "fmt_d i = (if i < 0 then CHR ''-'' # fmt_nat (nat (- i)) else fmt_nat (nat i))"

text \<open>The verb \<open>%s\<close> on a \<open>net.IP\<close> holding an IPv4 address: its \<open>String()\<close>.\<close>

fun IP_String :: "IP \<Rightarrow> string" where
  "IP_String (IPv4 a b c d) =
     fmt_nat (unat a) @ ''.'' @ fmt_nat (unat b) @ ''.'' @ fmt_nat (unat c) @ ''.'' @ fmt_nat (unat d)"

text \<open>The verb \<open>%v\<close> on an error.\<close>

fun fmt_v :: "error \<Rightarrow> string" where
  "fmt_v (Error msg) = msg"

text \<open>\<open>fmt.Errorf(prefix ++ "%v", err)\<close>.\<close>

definition Errorf :: "string \<Rightarrow> error \<Rightarrow> error" where
  "Errorf prefix err = Error (prefix @ fmt_v err)"

subsection \<open>EtcdEndpoint\<close>

text \<open>
  The loop over \<open>lc.Dnsmasq.Segments\<close>. The arguments of \<open>Sprintf\<close> are evaluated left to
  right: the index \<open>DHCPv4[0]\<close> first, then the field \<open>lc.SimpleEtcd.Port\<close>. Falling out
  of the loop reaches the explicit panic.
\<close>

fun EtcdEndpoint_loop :: "string \<Rightarrow> SimpleEtcd option \<Rightarrow> Segment list \<Rightarrow> string outcome" where
  "EtcdEndpoint_loop bridge etcd [] = Panicked (PanicMsg ''Not a valid bridge!'')"
| "EtcdEndpoint_loop bridge etcd (seg # segs) =
     (if bridge = BridgeName seg then
        (case DHCPv4 (BridgeIf seg) of
           [] \<Rightarrow> Panicked IndexOutOfRange
         | a # _ \<Rightarrow>
             (case etcd of
                None \<Rightarrow> Panicked NilDereference
              | Some e \<Rightarrow> Returned (''http://'' @ IP_String (IP a) @ '':'' @ fmt_d (Port e))))
      else EtcdEndpoint_loop bridge etcd segs)"

definition EtcdEndpoint :: "LocalCluster \<Rightarrow> string outcome" where
  "EtcdEndpoint lc =
     (let bridge = ''br0'' in
      case Dnsmasq lc of
        None \<Rightarrow> Panicked NilDereference
      | Some d \<Rightarrow> EtcdEndpoint_loop bridge (SimpleEtcd lc) (Segments d))"

subsection \<open>NewCommand\<close>

text \<open>
  \<open>NewNsCommand\<close> is not among the sources: it is the parameter \<open>mk\<close>. The code calls
  it first, then reads \<open>lc.SSHAgent.Socket\<close> and appends one entry to \<open>cmd.Env\<close>.
\<close>

definition NewCommand ::
  "(NsHandle \<Rightarrow> string \<Rightarrow> string list \<Rightarrow> Cmd) \<Rightarrow> LocalCluster \<Rightarrow> string \<Rightarrow> string list \<Rightarrow> Cmd outcome" where
  "NewCommand mk lc name arg =
     (let cmd = mk (nshandle lc) name arg in
      case SSHAgent lc of
        None \<Rightarrow> Panicked NilDereference
      | Some agent \<Rightarrow>
          (let sshEnv = ''SSH_AUTH_SOCK='' @ Socket agent
           in Returned (cmd\<lparr>Env := Env cmd @ [sshEnv]\<rparr>)))"

subsection \<open>The world the collaborators act on\<close>

text \<open>
  What a call can leave behind: the namespace behind a handle and the three services.
\<close>

datatype resource = Res_Namespace NsHandle | Res_SSHAgent | Res_Dnsmasq | Res_SimpleEtcd

text \<open>The calls the code makes to its collaborators, as they appear in the log.\<close>

datatype event =
    Call_NsCreate
  | Call_NsHandle_Close NsHandle
  | Call_NewSSHAgent NsDialer
  | Call_SSHAgent_Close
  | Call_NsEnter NsHandle
  | Call_nsExit
  | Call_NewDnsmasq
  | Call_Dnsmasq_Destroy
  | Call_NewSimpleEtcd
  | Call_SimpleEtcd_Destroy
  | Call_AddLinkTap string
  | Call_LinkSetUp TunTap
  | Call_LinkByName string
  | Call_LinkSetMaster TunTap Link

text \<open>
  \<open>calls\<close> is the log, oldest first; \<open>live\<close> holds what was created and has not been
  handed to its release call; \<open>thread_ns\<close> is the namespace the executing thread is
  associated with.
\<close>

record world =
  calls :: "event list"
  live :: "resource list"
  thread_ns :: NsHandle

text \<open>
  What each collaborator returns. A Go pair \<open>(value, error)\<close> is a sum with the error
  on the left; a lone \<open>error\<close> result is an option, \<open>None\<close> for nil.
\<close>

record env =
  NsCreate_ret :: "error + NsHandle"
  NewSSHAgent_ret :: "error + SSHAgent"
  NsEnter_ret :: "error option"
  NewDnsmasq_ret :: "error + Dnsmasq"
  NewSimpleEtcd_ret :: "error + SimpleEtcd"
  AddLinkTap_ret :: "error + TunTap"
  LinkSetUp_ret :: "error option"
  LinkByName_ret :: "error + Link"
  LinkSetMaster_ret :: "error option"
  SimpleEtcd_Destroy_ret :: "error option"
  Dnsmasq_Destroy_ret :: "error option"
  SSHAgent_Close_ret :: "error option"
  NsHandle_Close_ret :: "error option"

definition logged :: "event \<Rightarrow> world \<Rightarrow> world" where
  "logged ev w = w\<lparr>calls := calls w @ [ev]\<rparr>"

definition created :: "resource \<Rightarrow> world \<Rightarrow> world" where
  "created r w = w\<lparr>live := live w @ [r]\<rparr>"

definition released :: "resource \<Rightarrow> world \<Rightarrow> world" where
  "released r w = w\<lparr>live := removeAll r (live w)\<rparr>"

text \<open>
  Modelled from the spec: \<open>NsCreate\<close> (ns.go is not among the sources) allocates a new
  network namespace and returns its handle, or fails.
\<close>

definition NsCreate :: "env \<Rightarrow> world \<Rightarrow> (error + NsHandle) \<times> world" where
  "NsCreate env w =
     (case NsCreate_ret env of
        Inl err \<Rightarrow> (Inl err, logged Call_NsCreate w)
      | Inr h \<Rightarrow> (Inr h, created (Res_Namespace h) (logged Call_NsCreate w)))"

text \<open>
  Modelled from the spec: closing a handle releases its namespace. The release is
  counted from the call, whatever error the call reports.
\<close>

definition NsHandle_Close :: "env \<Rightarrow> NsHandle \<Rightarrow> world \<Rightarrow> error option \<times> world" where
  "NsHandle_Close env h w =
     (NsHandle_Close_ret env, released (Res_Namespace h) (logged (Call_NsHandle_Close h) w))"

definition NewNsDialer :: "NsHandle \<Rightarrow> NsDialer" where
  "NewNsDialer h = NsDialer h"

text \<open>
  Modelled from the spec: the SSH agent proxy (network/ssh.go is not among the sources)
  is started by \<open>NewSSHAgent\<close> and released by \<open>Close\<close>.
\<close>

definition NewSSHAgent :: "env \<Rightarrow> NsDialer \<Rightarrow> world \<Rightarrow> (error + SSHAgent) \<times> world" where
  "NewSSHAgent env dialer w =
     (case NewSSHAgent_ret env of
        Inl err \<Rightarrow> (Inl err, logged (Call_NewSSHAgent dialer) w)
      | Inr agent \<Rightarrow> (Inr agent, created Res_SSHAgent (logged (Call_NewSSHAgent dialer) w)))"

definition SSHAgent_Close :: "env \<Rightarrow> world \<Rightarrow> error option \<times> world" where
  "SSHAgent_Close env w =
     (SSHAgent_Close_ret env, released Res_SSHAgent (logged Call_SSHAgent_Close w))"

text \<open>
  Modelled from the spec: \<open>NsEnter\<close> (ns.go is not among the sources) binds the executing
  thread to the namespace of the handle and returns the release function, which restores
  the association the thread had before. When it fails the association is unchanged.
\<close>

definition nsExit :: "NsHandle \<Rightarrow> world \<Rightarrow> world" where
  "nsExit orig w = (logged Call_nsExit w)\<lparr>thread_ns := orig\<rparr>"

definition NsEnter :: "env \<Rightarrow> NsHandle \<Rightarrow> world \<Rightarrow> (error + (world \<Rightarrow> world)) \<times> world" where
  "NsEnter env h w =
     (case NsEnter_ret env of
        Some err \<Rightarrow> (Inl err, logged (Call_NsEnter h) w)
      | None \<Rightarrow> (Inr (nsExit (thread_ns w)), (logged (Call_NsEnter h) w)\<lparr>thread_ns := h\<rparr>))"

text \<open>
  Modelled from the spec: the DHCP/DNS service and the coordination store (dnsmasq.go
  and etcd.go are not among the sources) are started by their constructors and released
  by \<open>Destroy\<close>.
\<close>

definition NewDnsmasq :: "env \<Rightarrow> world \<Rightarrow> (error + Dnsmasq) \<times> world" where
  "NewDnsmasq env w =
     (case NewDnsmasq_ret env of
        Inl err \<Rightarrow> (Inl err, logged Call_NewDnsmasq w)
      | Inr d \<Rightarrow> (Inr d, created Res_Dnsmasq (logged Call_NewDnsmasq w)))"

definition Dnsmasq_Destroy :: "env \<Rightarrow> world \<Rightarrow> error option \<times> world" where
  "Dnsmasq_Destroy env w =
     (Dnsmasq_Destroy_ret env, released Res_Dnsmasq (logged Call_Dnsmasq_Destroy w))"

definition NewSimpleEtcd :: "env \<Rightarrow> world \<Rightarrow> (error + SimpleEtcd) \<times> world" where
  "NewSimpleEtcd env w =
     (case NewSimpleEtcd_ret env of
        Inl err \<Rightarrow> (Inl err, logged Call_NewSimpleEtcd w)
      | Inr e \<Rightarrow> (Inr e, created Res_SimpleEtcd (logged Call_NewSimpleEtcd w)))"

definition SimpleEtcd_Destroy :: "env \<Rightarrow> world \<Rightarrow> error option \<times> world" where
  "SimpleEtcd_Destroy env w =
     (SimpleEtcd_Destroy_ret env, released Res_SimpleEtcd (logged Call_SimpleEtcd_Destroy w))"

text \<open>The netlink calls of \<open>NewTap\<close>: each is logged and answers from \<open>env\<close>.\<close>

definition AddLinkTap :: "env \<Rightarrow> string \<Rightarrow> world \<Rightarrow> (error + TunTap) \<times> world" where
  "AddLinkTap env name w = (AddLinkTap_ret env, logged (Call_AddLinkTap name) w)"

definition LinkSetUp :: "env \<Rightarrow> TunTap \<Rightarrow> world \<Rightarrow> error option \<times> world" where
  "LinkSetUp env tap w = (LinkSetUp_ret env, logged (Call_LinkSetUp tap) w)"

definition LinkByName :: "env \<Rightarrow> string \<Rightarrow> world \<Rightarrow> (error + Link) \<times> world" where
  "LinkByName env name w = (LinkByName_ret env, logged (Call_LinkByName name) w)"

definition LinkSetMaster :: "env \<Rightarrow> TunTap \<Rightarrow> Link \<Rightarrow> world \<Rightarrow> error option \<times> world" where
  "LinkSetMaster env tap br w = (LinkSetMaster_ret env, logged (Call_LinkSetMaster tap br) w)"

subsection \<open>NewLocalCluster\<close>

text \<open>
  The part of \<open>NewLocalCluster\<close> after \<open>defer nsExit()\<close>: dnsmasq and etcd are launched
  in the new namespace. The results of the two clean-up calls are dropped, as in the code.
\<close>

definition NewLocalCluster_scoped ::
  "env \<Rightarrow> LocalCluster \<Rightarrow> world \<Rightarrow> (LocalCluster option \<times> error option) \<times> world" where
  "NewLocalCluster_scoped env lc w =
     (case NewDnsmasq env w of
        (Inl err, w1) \<Rightarrow>
          (let (_, w2) = NsHandle_Close env (nshandle lc) w1
           in ((None, Some err), w2))
      | (Inr d, w1) \<Rightarrow>
          (let lc = lc\<lparr>Dnsmasq := Some d\<rparr> in
           case NewSimpleEtcd env w1 of
             (Inl err, w2) \<Rightarrow>
               (let (_, w3) = Dnsmasq_Destroy env w2;
                    (_, w4) = NsHandle_Close env (nshandle lc) w3
                in ((None, Some err), w4))
           | (Inr e, w2) \<Rightarrow>
               (let lc = lc\<lparr>SimpleEtcd := Some e\<rparr>
                in ((Some lc, None), w2))))"

text \<open>
  The whole function. The deferred \<open>nsExit\<close> runs when the scoped part has produced the
  values to return, so it is applied to the world that part leaves.
\<close>

definition NewLocalCluster :: "env \<Rightarrow> world \<Rightarrow> (LocalCluster option \<times> error option) \<times> world" where
  "NewLocalCluster env w =
     (let lc = \<lparr>SSHAgent = None, Dnsmasq = None, SimpleEtcd = None, nshandle = 0\<rparr> in
      case NsCreate env w of
        (Inl err, w1) \<Rightarrow> ((None, Some err), w1)
      | (Inr h, w1) \<Rightarrow>
          (let lc = lc\<lparr>nshandle := h\<rparr>;
               dialer = NewNsDialer (nshandle lc) in
           case NewSSHAgent env dialer w1 of
             (Inl err, w2) \<Rightarrow>
               (let (_, w3) = NsHandle_Close env (nshandle lc) w2
                in ((None, Some err), w3))
           | (Inr agent, w2) \<Rightarrow>
               (let lc = lc\<lparr>SSHAgent := Some agent\<rparr> in
                case NsEnter env (nshandle lc) w2 of
                  (Inl err, w3) \<Rightarrow> ((None, Some err), w3)
                | (Inr nsExit_fn, w3) \<Rightarrow>
                    (let (r, w4) = NewLocalCluster_scoped env lc w3
                     in (r, nsExit_fn w4)))))"

subsection \<open>NewTap\<close>

text \<open>
  The part of \<open>NewTap\<close> after \<open>defer nsExit()\<close>. The type assertion
  \<open>br.(*netlink.Bridge)\<close> has no second result, so a link of another type panics; the
  operand is evaluated before \<open>LinkSetMaster\<close> is called.
\<close>

definition NewTap_scoped ::
  "env \<Rightarrow> string \<Rightarrow> world \<Rightarrow> (TunTap option \<times> error option) outcome \<times> world" where
  "NewTap_scoped env bridge w =
     (case AddLinkTap env '''' w of
        (Inl err, w1) \<Rightarrow> (Returned (None, Some (Errorf ''tap failed: '' err)), w1)
      | (Inr tap, w1) \<Rightarrow>
          (case LinkSetUp env tap w1 of
             (Some err, w2) \<Rightarrow> (Returned (None, Some (Errorf ''tap up failed: '' err)), w2)
           | (None, w2) \<Rightarrow>
               (case LinkByName env bridge w2 of
                  (Inl err, w3) \<Rightarrow> (Returned (None, Some (Errorf ''bridge failed: '' err)), w3)
                | (Inr br, w3) \<Rightarrow>
                    (case br of
                       Bridge _ \<Rightarrow>
                         (case LinkSetMaster env tap br w3 of
                            (Some err, w4) \<Rightarrow>
                              (Returned (None, Some (Errorf ''set master failed: '' err)), w4)
                          | (None, w4) \<Rightarrow> (Returned (Some tap, None), w4))
                     | _ \<Rightarrow> (Panicked TypeAssertionFailed, w3)))))"

text \<open>
  The whole function. A deferred call also runs while a panic unwinds, so \<open>nsExit\<close> is
  applied whatever the scoped part ends with.
\<close>

definition NewTap ::
  "env \<Rightarrow> LocalCluster \<Rightarrow> string \<Rightarrow> world \<Rightarrow> (TunTap option \<times> error option) outcome \<times> world" where
  "NewTap env lc bridge w =
     (case NsEnter env (nshandle lc) w of
        (Inl err, w1) \<Rightarrow> (Returned (None, Some err), w1)
      | (Inr nsExit_fn, w1) \<Rightarrow>
          (let (r, w2) = NewTap_scoped env bridge w1
           in (r, nsExit_fn w2)))"

subsection \<open>Destroy\<close>

text \<open>The closure \<open>firstErr\<close>, with the captured variable \<open>err\<close> as its first argument.\<close>

definition firstErr :: "error option \<Rightarrow> error option \<Rightarrow> error option" where
  "firstErr err e = (if e \<noteq> None \<and> err = None then e else err)"

definition Destroy :: "env \<Rightarrow> LocalCluster \<Rightarrow> world \<Rightarrow> error option \<times> world" where
  "Destroy env lc w =
     (let err = None;
          (e1, w1) = SimpleEtcd_Destroy env w;
          err = firstErr err e1;
          (e2, w2) = Dnsmasq_Destroy env w1;
          err = firstErr err e2;
          (e3, w3) = SSHAgent_Close env w2;
          err = firstErr err e3;
          (e4, w4) = NsHandle_Close env (nshandle lc) w3;
          err = firstErr err e4
      in (err, w4))"

subsection \<open>Concrete inputs\<close>

text \<open>A world in which nothing has happened; the thread is in namespace 1.\<close>

definition world0 :: world where
  "world0 = \<lparr>calls = [], live = [], thread_ns = 1\<rparr>"

definition lease :: "IP \<Rightarrow> IPNet" where
  "lease a = \<lparr>IP = a, MaskBits = 24\<rparr>"

definition segment :: "string \<Rightarrow> IP list \<Rightarrow> Segment" where
  "segment name addrs = \<lparr>BridgeName = name, BridgeIf = \<lparr>DHCPv4 = map lease addrs\<rparr>\<rparr>"

definition cluster_of :: "Segment list \<Rightarrow> int \<Rightarrow> LocalCluster" where
  "cluster_of segs port =
     \<lparr>SSHAgent = Some \<lparr>Socket = ''/tmp/agent.sock''\<rparr>,
      Dnsmasq = Some \<lparr>Segments = segs\<rparr>,
      SimpleEtcd = Some \<lparr>Port = port\<rparr>,
      nshandle = 7\<rparr>"

text \<open>An environment in which every collaborator succeeds.\<close>

definition env_ok :: env where
  "env_ok =
     \<lparr>NsCreate_ret = Inr 7,
      NewSSHAgent_ret = Inr \<lparr>Socket = ''/tmp/agent.sock''\<rparr>,
      NsEnter_ret = None,
      NewDnsmasq_ret = Inr \<lparr>Segments = [segment ''br0'' [IPv4 10 0 2 15]]\<rparr>,
      NewSimpleEtcd_ret = Inr \<lparr>Port = 2379\<rparr>,
      AddLinkTap_ret = Inr \<lparr>LinkName = ''tap0''\<rparr>,
      LinkSetUp_ret = None,
      LinkByName_ret = Inr (Bridge ''br0''),
      LinkSetMaster_ret = None,
      SimpleEtcd_Destroy_ret = None,
      Dnsmasq_Destroy_ret = None,
      SSHAgent_Close_ret = None,
      NsHandle_Close_ret = None\<rparr>"

text \<open>A command builder that hands over an environment holding \<open>FOO=bar\<close>.\<close>

definition mk_foo :: "NsHandle \<Rightarrow> string \<Rightarrow> string list \<Rightarrow> Cmd" where
  "mk_foo h name arg = \<lparr>CmdNs = h, Path = name, Args = name # arg, Env = [''FOO=bar'']\<rparr>"

subsection \<open>Reading the log\<close>

text \<open>
  \<open>precedes a b xs\<close>: the call \<open>b\<close> occurs in the log \<open>xs\<close> after the first
  occurrence of the call \<open>a\<close>.
\<close>

definition precedes :: "event \<Rightarrow> event \<Rightarrow> event list \<Rightarrow> bool" where
  "precedes a b xs = (b \<in> set (tl (dropWhile (\<lambda>x. x \<noteq> a) xs)))"

section \<open>Properties\<close>

lemmas collaborator_defs =
  NsCreate_def NsHandle_Close_def NewNsDialer_def NewSSHAgent_def SSHAgent_Close_def
  NsEnter_def nsExit_def NewDnsmasq_def Dnsmasq_Destroy_def NewSimpleEtcd_def
  SimpleEtcd_Destroy_def AddLinkTap_def LinkSetUp_def LinkByName_def LinkSetMaster_def
  logged_def created_def released_def

lemmas sample_defs = world0_def lease_def segment_def cluster_of_def env_ok_def mk_foo_def

subsection \<open>Formatting on the numbers used below\<close>

lemma fmt_nat_digit: "n < 10 \<Longrightarrow> fmt_nat n = [digit n]"
  by (simp add: fmt_nat.simps)

lemma fmt_nat_step: "\<not> n < 10 \<Longrightarrow> fmt_nat n = fmt_nat (n div 10) @ [digit n]"
  by (subst fmt_nat.simps) simp

lemma fmt_d_2379: "fmt_d 2379 = ''2379''"
  by (simp add: fmt_d_def fmt_nat_digit fmt_nat_step digit_def)

lemma IP_String_10_0_2_15: "IP_String (IPv4 10 0 2 15) = ''10.0.2.15''"
  by (simp add: fmt_nat_digit fmt_nat_step digit_def)

lemma IP_String_10_0_2_16: "IP_String (IPv4 10 0 2 16) = ''10.0.2.16''"
  by (simp add: fmt_nat_digit fmt_nat_step digit_def)

subsection \<open>The segment loop\<close>

lemma EtcdEndpoint_loop_no_match:
  "\<forall>s\<in>set segs. BridgeName s \<noteq> bridge \<Longrightarrow>
   EtcdEndpoint_loop bridge etcd segs = Panicked (PanicMsg ''Not a valid bridge!'')"
  by (induction segs) auto

lemma EtcdEndpoint_loop_skip:
  "\<forall>s\<in>set pre. BridgeName s \<noteq> bridge \<Longrightarrow>
   EtcdEndpoint_loop bridge etcd (pre @ rest) = EtcdEndpoint_loop bridge etcd rest"
  by (induction pre) auto

text \<open>
  C2, as the code has it. The claim says the result is the bare \<open>address:port\<close>. The
  format string of the code is \<open>http://%s:%d\<close>: when the first segment named \<open>br0\<close> has
  10.0.2.15 as its first lease and etcd has port 2379, \<open>EtcdEndpoint\<close> returns
  \<open>http://10.0.2.15:2379\<close>.
\<close>

theorem EtcdEndpoint_br0_http:
  assumes "Dnsmasq lc = Some d"
    and "SimpleEtcd lc = Some e"
    and "Port e = 2379"
    and "Segments d = pre @ seg # post"
    and "\<forall>s\<in>set pre. BridgeName s \<noteq> ''br0''"
    and "BridgeName seg = ''br0''"
    and "DHCPv4 (BridgeIf seg) = a # rest"
    and "IP a = IPv4 10 0 2 15"
  shows "EtcdEndpoint lc = Returned ''http://10.0.2.15:2379''"
proof -
  have "EtcdEndpoint lc = EtcdEndpoint_loop ''br0'' (Some e) (seg # post)"
    using assms(1,2,4,5) by (simp add: EtcdEndpoint_def EtcdEndpoint_loop_skip)
  also have "\<dots> = Returned (''http://'' @ IP_String (IPv4 10 0 2 15) @ '':'' @ fmt_d 2379)"
    using assms(3,6,7,8) by simp
  also have "\<dots> = Returned ''http://10.0.2.15:2379''"
    by (simp only: IP_String_10_0_2_15 fmt_d_2379) simp
  finally show ?thesis .
qed

text \<open>
  The theorem at a lease table whose second segment is \<open>br0\<close>, with two leases.
\<close>

theorem EtcdEndpoint_br0_http_witness:
  "EtcdEndpoint
     (cluster_of [segment ''virbr0'' [IPv4 10 0 2 16],
                  segment ''br0'' [IPv4 10 0 2 15, IPv4 10 0 2 16]] 2379)
   = Returned ''http://10.0.2.15:2379''"
proof -
  let ?pre = "[segment ''virbr0'' [IPv4 10 0 2 16]]"
  let ?seg = "segment ''br0'' [IPv4 10 0 2 15, IPv4 10 0 2 16]"
  let ?lc = "cluster_of (?pre @ ?seg # []) 2379"
  have d: "Dnsmasq ?lc = Some \<lparr>Segments = ?pre @ ?seg # []\<rparr>"
    by (simp add: cluster_of_def)
  have e: "SimpleEtcd ?lc = Some \<lparr>Port = 2379\<rparr>"
    by (simp add: cluster_of_def)
  have p: "Port \<lparr>Port = 2379\<rparr> = 2379"
    by simp
  have s: "Segments \<lparr>Segments = ?pre @ ?seg # []\<rparr> = ?pre @ ?seg # []"
    by simp
  have n: "\<forall>s\<in>set ?pre. BridgeName s \<noteq> ''br0''"
    by (simp add: segment_def)
  have b: "BridgeName ?seg = ''br0''"
    by (simp add: segment_def)
  have l: "DHCPv4 (BridgeIf ?seg) = lease (IPv4 10 0 2 15) # [lease (IPv4 10 0 2 16)]"
    by (simp add: segment_def)
  have i: "IP (lease (IPv4 10 0 2 15)) = IPv4 10 0 2 15"
    by (simp add: lease_def)
  have "EtcdEndpoint ?lc = Returned ''http://10.0.2.15:2379''"
    by (rule EtcdEndpoint_br0_http [OF d e p s n b l i])
  then show ?thesis by simp
qed

text \<open>
  C2, as the claim states it, fails on the input of the spec's own example: one segment
  \<open>br0\<close> with the lease 10.0.2.15 and etcd on port 2379. The result carries the scheme.
\<close>

theorem EtcdEndpoint_bare_address_counterexample:
  "EtcdEndpoint (cluster_of [segment ''br0'' [IPv4 10 0 2 15]] 2379)
     = Returned ''http://10.0.2.15:2379'' \<and>
   EtcdEndpoint (cluster_of [segment ''br0'' [IPv4 10 0 2 15]] 2379)
     \<noteq> Returned ''10.0.2.15:2379''"
  by (simp add: EtcdEndpoint_def sample_defs fmt_d_2379 fmt_nat_digit fmt_nat_step digit_def)

text \<open>
  C5: when the lease table has no segment named \<open>br0\<close>, \<open>EtcdEndpoint\<close> does not
  return: it ends in the panic \<open>Not a valid bridge!\<close>.
\<close>

theorem EtcdEndpoint_no_bridge_panics:
  assumes "Dnsmasq lc = Some d"
    and "\<forall>s\<in>set (Segments d). BridgeName s \<noteq> ''br0''"
  shows "EtcdEndpoint lc = Panicked (PanicMsg ''Not a valid bridge!'')"
  using assms by (simp add: EtcdEndpoint_def EtcdEndpoint_loop_no_match)

text \<open>The theorem at a lease table with the segments \<open>br1\<close> and \<open>docker0\<close>.\<close>

theorem EtcdEndpoint_no_bridge_panics_witness:
  "EtcdEndpoint (cluster_of [segment ''br1'' [IPv4 10 0 2 15], segment ''docker0'' []] 2379)
     = Panicked (PanicMsg ''Not a valid bridge!'')"
proof -
  let ?segs = "[segment ''br1'' [IPv4 10 0 2 15], segment ''docker0'' []]"
  have d: "Dnsmasq (cluster_of ?segs 2379) = Some \<lparr>Segments = ?segs\<rparr>"
    by (simp add: cluster_of_def)
  have n: "\<forall>s\<in>set (Segments \<lparr>Segments = ?segs\<rparr>). BridgeName s \<noteq> ''br0''"
    by (simp add: segment_def)
  show ?thesis
    by (rule EtcdEndpoint_no_bridge_panics [OF d n])
qed

text \<open>
  C10: the index \<open>DHCPv4[0]\<close> is unguarded and the loop stops at the first match. With
  \<open>seg\<close> the first segment named \<open>br0\<close>: an empty lease list ends in the run-time panic
  for an index out of range, and a non-empty one gives the endpoint built from the first
  lease of \<open>seg\<close>, whatever segments follow.
\<close>

theorem EtcdEndpoint_first_match:
  assumes "Dnsmasq lc = Some d"
    and "Segments d = pre @ seg # post"
    and "\<forall>s\<in>set pre. BridgeName s \<noteq> ''br0''"
    and "BridgeName seg = ''br0''"
  shows "(DHCPv4 (BridgeIf seg) = [] \<longrightarrow> EtcdEndpoint lc = Panicked IndexOutOfRange) \<and>
         (\<forall>a rest e. DHCPv4 (BridgeIf seg) = a # rest \<longrightarrow> SimpleEtcd lc = Some e \<longrightarrow>
            EtcdEndpoint lc = Returned (''http://'' @ IP_String (IP a) @ '':'' @ fmt_d (Port e)))"
  using assms by (simp add: EtcdEndpoint_def EtcdEndpoint_loop_skip)

text \<open>
  The theorem at two lease tables: \<open>br0\<close> with no lease, followed by a second \<open>br0\<close>
  that has one; and two segments \<open>br0\<close> with different leases.
\<close>

theorem EtcdEndpoint_first_match_witness:
  "EtcdEndpoint (cluster_of [segment ''br0'' [], segment ''br0'' [IPv4 10 0 2 15]] 2379)
     = Panicked IndexOutOfRange \<and>
   EtcdEndpoint (cluster_of [segment ''br0'' [IPv4 10 0 2 16], segment ''br0'' [IPv4 10 0 2 15]] 2379)
     = Returned ''http://10.0.2.16:2379''"
proof -
  let ?later = "[segment ''br0'' [IPv4 10 0 2 15]]"
  let ?empty = "segment ''br0'' []"
  let ?full = "segment ''br0'' [IPv4 10 0 2 16]"
  have no_pre: "\<forall>s\<in>set []. BridgeName s \<noteq> ''br0''"
    by simp
  have d1: "Dnsmasq (cluster_of ([] @ ?empty # ?later) 2379) = Some \<lparr>Segments = [] @ ?empty # ?later\<rparr>"
    by (simp add: cluster_of_def)
  have s1: "Segments \<lparr>Segments = [] @ ?empty # ?later\<rparr> = [] @ ?empty # ?later"
    by simp
  have b1: "BridgeName ?empty = ''br0''"
    by (simp add: segment_def)
  have l1: "DHCPv4 (BridgeIf ?empty) = []"
    by (simp add: segment_def)
  have first: "EtcdEndpoint (cluster_of ([] @ ?empty # ?later) 2379) = Panicked IndexOutOfRange"
    using EtcdEndpoint_first_match [OF d1 s1 no_pre b1] l1 by blast
  have d2: "Dnsmasq (cluster_of ([] @ ?full # ?later) 2379) = Some \<lparr>Segments = [] @ ?full # ?later\<rparr>"
    by (simp add: cluster_of_def)
  have s2: "Segments \<lparr>Segments = [] @ ?full # ?later\<rparr> = [] @ ?full # ?later"
    by simp
  have b2: "BridgeName ?full = ''br0''"
    by (simp add: segment_def)
  have l2: "DHCPv4 (BridgeIf ?full) = lease (IPv4 10 0 2 16) # []"
    by (simp add: segment_def)
  have e2: "SimpleEtcd (cluster_of ([] @ ?full # ?later) 2379) = Some \<lparr>Port = 2379\<rparr>"
    by (simp add: cluster_of_def)
  have "EtcdEndpoint (cluster_of ([] @ ?full # ?later) 2379)
          = Returned (''http://'' @ IP_String (IP (lease (IPv4 10 0 2 16))) @ '':'' @ fmt_d (Port \<lparr>Port = 2379\<rparr>))"
    using EtcdEndpoint_first_match [OF d2 s2 no_pre b2] l2 e2 by blast
  then have second: "EtcdEndpoint (cluster_of ([] @ ?full # ?later) 2379) = Returned ''http://10.0.2.16:2379''"
    by (simp add: lease_def IP_String_10_0_2_16 fmt_d_2379 del: IP_String.simps)
  show ?thesis
    using first second by simp
qed

subsection \<open>NewCommand\<close>

text \<open>
  C7: on a cluster with an SSH agent, \<open>NewCommand\<close> returns the command of
  \<open>NewNsCommand\<close> with exactly one entry \<open>SSH_AUTH_SOCK=<socket>\<close> appended to its
  environment. The entries it had are all still there, at their positions, and the
  other fields are unchanged.
\<close>

theorem NewCommand_appends_agent_socket:
  assumes "SSHAgent lc = Some agent"
  shows "case NewCommand mk lc name arg of
           Panicked p \<Rightarrow> False
         | Returned cmd \<Rightarrow>
             Env cmd = Env (mk (nshandle lc) name arg) @ [''SSH_AUTH_SOCK='' @ Socket agent] \<and>
             length (Env cmd) = Suc (length (Env (mk (nshandle lc) name arg))) \<and>
             take (length (Env (mk (nshandle lc) name arg))) (Env cmd) = Env (mk (nshandle lc) name arg) \<and>
             set (Env (mk (nshandle lc) name arg)) \<subseteq> set (Env cmd) \<and>
             CmdNs cmd = CmdNs (mk (nshandle lc) name arg) \<and>
             Path cmd = Path (mk (nshandle lc) name arg) \<and>
             Args cmd = Args (mk (nshandle lc) name arg)"
  using assms by (auto simp: NewCommand_def Let_def)

text \<open>The theorem on a command whose environment already holds \<open>FOO=bar\<close>.\<close>

theorem NewCommand_appends_agent_socket_witness:
  "NewCommand mk_foo (cluster_of [] 2379) ''ssh'' [''core@10.0.2.15'']
     = Returned \<lparr>CmdNs = 7, Path = ''ssh'', Args = [''ssh'', ''core@10.0.2.15''],
                 Env = [''FOO=bar'', ''SSH_AUTH_SOCK=/tmp/agent.sock'']\<rparr>"
proof -
  have a: "SSHAgent (cluster_of [] 2379) = Some \<lparr>Socket = ''/tmp/agent.sock''\<rparr>"
    by (simp add: cluster_of_def)
  show ?thesis
    using NewCommand_appends_agent_socket [OF a, of mk_foo "''ssh''" "[''core@10.0.2.15'']"]
    by (cases "NewCommand mk_foo (cluster_of [] 2379) ''ssh'' [''core@10.0.2.15'']")
       (simp_all add: mk_foo_def cluster_of_def)
qed

subsection \<open>Destroy\<close>

text \<open>
  C3: whatever the four teardown calls return, \<open>Destroy\<close> makes each of them once, in
  the order etcd, dnsmasq, SSH agent, namespace handle, and returns the first error among
  their results in that order (nil when there is none).
\<close>

theorem Destroy_runs_all_steps:
  "calls (snd (Destroy env lc w))
     = calls w @ [Call_SimpleEtcd_Destroy, Call_Dnsmasq_Destroy, Call_SSHAgent_Close,
                  Call_NsHandle_Close (nshandle lc)] \<and>
   fst (Destroy env lc w)
     = (case SimpleEtcd_Destroy_ret env of
          Some e \<Rightarrow> Some e
        | None \<Rightarrow>
            (case Dnsmasq_Destroy_ret env of
               Some e \<Rightarrow> Some e
             | None \<Rightarrow>
                 (case SSHAgent_Close_ret env of
                    Some e \<Rightarrow> Some e
                  | None \<Rightarrow> NsHandle_Close_ret env)))"
  by (simp add: Destroy_def firstErr_def collaborator_defs split: option.splits)

text \<open>
  The theorem where the teardown of etcd and of the SSH agent both fail, and where no
  teardown fails.
\<close>

theorem Destroy_runs_all_steps_witness:
  "fst (Destroy (env_ok\<lparr>SimpleEtcd_Destroy_ret := Some (Error ''etcd: kill failed''),
                        SSHAgent_Close_ret := Some (Error ''agent: close failed'')\<rparr>)
          (cluster_of [] 2379) world0) = Some (Error ''etcd: kill failed'') \<and>
   calls (snd (Destroy (env_ok\<lparr>SimpleEtcd_Destroy_ret := Some (Error ''etcd: kill failed''),
                        SSHAgent_Close_ret := Some (Error ''agent: close failed'')\<rparr>)
          (cluster_of [] 2379) world0))
     = [Call_SimpleEtcd_Destroy, Call_Dnsmasq_Destroy, Call_SSHAgent_Close, Call_NsHandle_Close 7] \<and>
   fst (Destroy env_ok (cluster_of [] 2379) world0) = None"
  using Destroy_runs_all_steps [of "env_ok\<lparr>SimpleEtcd_Destroy_ret := Some (Error ''etcd: kill failed''),
                        SSHAgent_Close_ret := Some (Error ''agent: close failed'')\<rparr>" "cluster_of [] 2379" world0]
    Destroy_runs_all_steps [of env_ok "cluster_of [] 2379" world0]
  by (simp add: env_ok_def cluster_of_def world0_def)

subsection \<open>NewLocalCluster\<close>

text \<open>
  C9: \<open>NewLocalCluster\<close> returns either a cluster and a nil error, the cluster holding
  the handle, the agent, the dnsmasq and the etcd that the four constructors returned; or
  a nil cluster and an error.
\<close>

theorem NewLocalCluster_all_or_nothing:
  "(\<exists>lc h agent d e.
      fst (NewLocalCluster env w) = (Some lc, None) \<and>
      NsCreate_ret env = Inr h \<and> nshandle lc = h \<and>
      NewSSHAgent_ret env = Inr agent \<and> SSHAgent lc = Some agent \<and>
      NewDnsmasq_ret env = Inr d \<and> Dnsmasq lc = Some d \<and>
      NewSimpleEtcd_ret env = Inr e \<and> SimpleEtcd lc = Some e) \<or>
   (\<exists>err. fst (NewLocalCluster env w) = (None, Some err))"
  by (simp add: NewLocalCluster_def NewLocalCluster_scoped_def collaborator_defs Let_def
           split: sum.splits option.splits prod.splits)

text \<open>
  The theorem where every constructor succeeds: the cluster holds the four components.
\<close>

theorem NewLocalCluster_all_or_nothing_witness:
  "fst (NewLocalCluster env_ok world0)
     = (Some \<lparr>SSHAgent = Some \<lparr>Socket = ''/tmp/agent.sock''\<rparr>,
              Dnsmasq = Some \<lparr>Segments = [segment ''br0'' [IPv4 10 0 2 15]]\<rparr>,
              SimpleEtcd = Some \<lparr>Port = 2379\<rparr>,
              nshandle = 7\<rparr>, None)"
proof -
  have ok: "\<not> (\<exists>err. fst (NewLocalCluster env_ok world0) = (None, Some err))"
    by (simp add: NewLocalCluster_def NewLocalCluster_scoped_def collaborator_defs env_ok_def world0_def)
  obtain lc where lc: "fst (NewLocalCluster env_ok world0) = (Some lc, None)"
    "nshandle lc = 7" "SSHAgent lc = Some \<lparr>Socket = ''/tmp/agent.sock''\<rparr>"
    "Dnsmasq lc = Some \<lparr>Segments = [segment ''br0'' [IPv4 10 0 2 15]]\<rparr>"
    "SimpleEtcd lc = Some \<lparr>Port = 2379\<rparr>"
    using NewLocalCluster_all_or_nothing [of env_ok world0] ok by (auto simp: env_ok_def)
  then show ?thesis by (cases lc) simp
qed

text \<open>
  C1, at the input where the claim fails: the namespace, the SSH agent and dnsmasq are up
  and \<open>NewSimpleEtcd\<close> returns an error. The code destroys dnsmasq and closes the handle,
  then returns the error; \<open>SSHAgent.Close\<close> is not among its calls, and the agent is
  still live when it returns.
\<close>

theorem NewLocalCluster_etcd_failure_leaks_agent:
  "NewLocalCluster (env_ok\<lparr>NewSimpleEtcd_ret := Inl (Error ''etcd: exit 1'')\<rparr>) world0
     = ((None, Some (Error ''etcd: exit 1'')),
        \<lparr>calls = [Call_NsCreate, Call_NewSSHAgent (NsDialer 7), Call_NsEnter 7, Call_NewDnsmasq,
                  Call_NewSimpleEtcd, Call_Dnsmasq_Destroy, Call_NsHandle_Close 7, Call_nsExit],
         live = [Res_SSHAgent],
         thread_ns = 1\<rparr>)"
  by (simp add: NewLocalCluster_def NewLocalCluster_scoped_def collaborator_defs env_ok_def world0_def)

text \<open>
  No path of \<open>NewLocalCluster\<close> calls \<open>SSHAgent.Close\<close>, so once the agent has been
  started every failure leaves it live.
\<close>

lemma NewLocalCluster_never_closes_agent:
  "Call_SSHAgent_Close \<in> set (calls (snd (NewLocalCluster env w))) \<longleftrightarrow> Call_SSHAgent_Close \<in> set (calls w)"
  by (simp add: NewLocalCluster_def NewLocalCluster_scoped_def collaborator_defs Let_def
           split: sum.splits option.splits)

lemma NewLocalCluster_failure_keeps_agent:
  assumes "NewSSHAgent_ret env = Inr agent" and "NsCreate_ret env = Inr h"
    and "fst (NewLocalCluster env w) = (None, Some err)"
  shows "Res_SSHAgent \<in> set (live (snd (NewLocalCluster env w)))"
  using assms
  by (simp add: NewLocalCluster_def NewLocalCluster_scoped_def collaborator_defs Let_def
           split: sum.splits option.splits)

subsection \<open>NewTap\<close>

text \<open>
  C4, at the input where the claim fails: the link found under the name is a plain
  device. \<open>NewTap\<close> does not return an error: the type assertion panics, after the tap
  has been created and brought up; the deferred \<open>nsExit\<close> still runs.
\<close>

theorem NewTap_not_a_bridge_panics:
  "NewTap (env_ok\<lparr>LinkByName_ret := Inr (Device ''eth0'')\<rparr>) (cluster_of [] 2379) ''eth0'' world0
     = (Panicked TypeAssertionFailed,
        \<lparr>calls = [Call_NsEnter 7, Call_AddLinkTap '''', Call_LinkSetUp \<lparr>LinkName = ''tap0''\<rparr>,
                  Call_LinkByName ''eth0'', Call_nsExit],
         live = [],
         thread_ns = 1\<rparr>)"
  by (simp add: NewTap_def NewTap_scoped_def collaborator_defs env_ok_def world0_def cluster_of_def)

text \<open>
  The same for every link that is not a bridge.
\<close>

lemma NewTap_type_assertion:
  assumes "NsEnter_ret env = None" and "AddLinkTap_ret env = Inr tap" and "LinkSetUp_ret env = None"
    and "LinkByName_ret env = Inr l" and "\<forall>n. l \<noteq> Bridge n"
  shows "fst (NewTap env lc bridge w) = Panicked TypeAssertionFailed"
  using assms
  by (cases l) (simp_all add: NewTap_def NewTap_scoped_def collaborator_defs)

text \<open>
  C6, as the code has it. The claim puts the attachment before the activation. In the
  code the order is the other way round: whenever \<open>NewTap\<close> returns a tap, it is the tap
  that \<open>AddLinkTap\<close> created, the link that \<open>LinkByName\<close> found under the given name is
  a bridge, every step succeeded, and the calls are \<open>NsEnter\<close>, creation of the tap, \<open>LinkSetUp\<close> on that tap
  (activation), the lookup of the named bridge, \<open>LinkSetMaster\<close> of that tap to the bridge
  the lookup returned (attachment) and \<open>nsExit\<close>, in this order and nothing else: all
  inside the one scoped region.
\<close>

theorem NewTap_call_order:
  assumes "fst (NewTap env lc bridge w) = Returned (Some tap, None)"
  shows "\<exists>br. NsEnter_ret env = None \<and>
              AddLinkTap_ret env = Inr tap \<and>
              LinkSetUp_ret env = None \<and>
              LinkByName_ret env = Inr (Bridge br) \<and>
              LinkSetMaster_ret env = None \<and>
              calls (snd (NewTap env lc bridge w))
                = calls w @ [Call_NsEnter (nshandle lc), Call_AddLinkTap '''', Call_LinkSetUp tap,
                             Call_LinkByName bridge, Call_LinkSetMaster tap (Bridge br), Call_nsExit]"
  using assms
  by (auto simp add: NewTap_def NewTap_scoped_def collaborator_defs
           split: sum.splits option.splits Link.splits)

text \<open>
  The theorem where every netlink call succeeds.
\<close>

theorem NewTap_call_order_witness:
  "calls (snd (NewTap env_ok (cluster_of [] 2379) ''br0'' world0))
     = [Call_NsEnter 7, Call_AddLinkTap '''', Call_LinkSetUp \<lparr>LinkName = ''tap0''\<rparr>,
        Call_LinkByName ''br0'', Call_LinkSetMaster \<lparr>LinkName = ''tap0''\<rparr> (Bridge ''br0''),
        Call_nsExit]"
proof -
  have r: "fst (NewTap env_ok (cluster_of [] 2379) ''br0'' world0) = Returned (Some \<lparr>LinkName = ''tap0''\<rparr>, None)"
    by (simp add: NewTap_def NewTap_scoped_def collaborator_defs env_ok_def world0_def cluster_of_def)
  obtain br where l: "LinkByName_ret env_ok = Inr (Bridge br)"
    and c: "calls (snd (NewTap env_ok (cluster_of [] 2379) ''br0'' world0))
           = calls world0 @ [Call_NsEnter (nshandle (cluster_of [] 2379)), Call_AddLinkTap '''',
                Call_LinkSetUp \<lparr>LinkName = ''tap0''\<rparr>,
                Call_LinkByName ''br0'', Call_LinkSetMaster \<lparr>LinkName = ''tap0''\<rparr> (Bridge br), Call_nsExit]"
    using NewTap_call_order [OF r] by blast
  have "br = ''br0''"
    using l by (simp add: env_ok_def)
  then show ?thesis
    using c by (simp add: world0_def cluster_of_def)
qed

text \<open>
  C6, as the claim states it, fails on a successful run: the activation is followed by
  the attachment, and the attachment is not followed by the activation.
\<close>

theorem NewTap_attach_before_activate_counterexample:
  "fst (NewTap env_ok (cluster_of [] 2379) ''br0'' world0) = Returned (Some \<lparr>LinkName = ''tap0''\<rparr>, None) \<and>
   precedes (Call_LinkSetUp \<lparr>LinkName = ''tap0''\<rparr>)
            (Call_LinkSetMaster \<lparr>LinkName = ''tap0''\<rparr> (Bridge ''br0''))
            (calls (snd (NewTap env_ok (cluster_of [] 2379) ''br0'' world0))) \<and>
   \<not> precedes (Call_LinkSetMaster \<lparr>LinkName = ''tap0''\<rparr> (Bridge ''br0''))
              (Call_LinkSetUp \<lparr>LinkName = ''tap0''\<rparr>)
              (calls (snd (NewTap env_ok (cluster_of [] 2379) ''br0'' world0)))"
  by (simp add: NewTap_def NewTap_scoped_def collaborator_defs env_ok_def world0_def cluster_of_def
        precedes_def)

subsection \<open>The namespace scope\<close>

text \<open>
  The scoped parts never call the release function and leave the association of the
  thread alone.
\<close>

lemma NewTap_scoped_log:
  "\<exists>new. calls (snd (NewTap_scoped env bridge w)) = calls w @ new \<and>
         count_list new Call_nsExit = 0 \<and>
         thread_ns (snd (NewTap_scoped env bridge w)) = thread_ns w"
  by (simp add: NewTap_scoped_def collaborator_defs split: sum.splits option.splits Link.splits)

lemma NewLocalCluster_scoped_log:
  "\<exists>new. calls (snd (NewLocalCluster_scoped env lc w)) = calls w @ new \<and>
         count_list new Call_nsExit = 0 \<and>
         thread_ns (snd (NewLocalCluster_scoped env lc w)) = thread_ns w"
  by (simp add: NewLocalCluster_scoped_def collaborator_defs split: sum.splits option.splits)

text \<open>
  C8: when \<open>NsEnter\<close> succeeds, \<open>NewTap\<close> calls the release function exactly once, as
  its last call, on every path (also when a netlink call fails or the type assertion
  panics), and the thread is associated with the same namespace after the call as before.
  The same holds for \<open>NewLocalCluster\<close> whenever it gets as far as entering the namespace.
\<close>

theorem namespace_scope_released_once:
  assumes "NsEnter_ret env = None"
  shows "(\<exists>new. calls (snd (NewTap env lc bridge w)) = calls w @ new \<and>
            count_list new Call_nsExit = 1 \<and> last new = Call_nsExit) \<and>
         thread_ns (snd (NewTap env lc bridge w)) = thread_ns w \<and>
         (\<forall>h agent. NsCreate_ret env = Inr h \<longrightarrow> NewSSHAgent_ret env = Inr agent \<longrightarrow>
            (\<exists>new. calls (snd (NewLocalCluster env w)) = calls w @ new \<and>
               count_list new Call_nsExit = 1 \<and> last new = Call_nsExit) \<and>
            thread_ns (snd (NewLocalCluster env w)) = thread_ns w)"
proof (intro conjI allI impI)
  obtain new where new: "calls (snd (NewTap_scoped env bridge
        ((logged (Call_NsEnter (nshandle lc)) w)\<lparr>thread_ns := nshandle lc\<rparr>)))
      = (calls w @ [Call_NsEnter (nshandle lc)]) @ new" "count_list new Call_nsExit = 0"
    using NewTap_scoped_log [of env bridge "(logged (Call_NsEnter (nshandle lc)) w)\<lparr>thread_ns := nshandle lc\<rparr>"]
    by (auto simp: logged_def)
  have tap: "calls (snd (NewTap env lc bridge w)) = calls w @ (Call_NsEnter (nshandle lc) # new @ [Call_nsExit])"
    using assms new(1) by (simp add: NewTap_def NsEnter_def nsExit_def logged_def split_def Let_def)
  show "\<exists>new. calls (snd (NewTap env lc bridge w)) = calls w @ new \<and>
            count_list new Call_nsExit = 1 \<and> last new = Call_nsExit"
    using tap new(2) by (intro exI [of _ "Call_NsEnter (nshandle lc) # new @ [Call_nsExit]"]) simp
  show "thread_ns (snd (NewTap env lc bridge w)) = thread_ns w"
    using assms by (simp add: NewTap_def NsEnter_def nsExit_def logged_def split_def Let_def)
next
  fix h agent
  assume h: "NsCreate_ret env = Inr h" and a: "NewSSHAgent_ret env = Inr agent"
  let ?lc = "\<lparr>SSHAgent = Some agent, Dnsmasq = None, SimpleEtcd = None, nshandle = h\<rparr>"
  let ?w3 = "(logged (Call_NsEnter h) (created Res_SSHAgent (logged (Call_NewSSHAgent (NsDialer h))
               (created (Res_Namespace h) (logged Call_NsCreate w)))))\<lparr>thread_ns := h\<rparr>"
  obtain new where new: "calls (snd (NewLocalCluster_scoped env ?lc ?w3)) = calls ?w3 @ new"
      "count_list new Call_nsExit = 0"
    using NewLocalCluster_scoped_log [of env ?lc ?w3] by auto
  have unfold: "snd (NewLocalCluster env w) = nsExit (thread_ns w) (snd (NewLocalCluster_scoped env ?lc ?w3))"
    using assms h a
    by (simp add: NewLocalCluster_def NsCreate_def NewSSHAgent_def NewNsDialer_def NsEnter_def
          logged_def created_def Let_def split_def)
  have lc: "calls (snd (NewLocalCluster env w))
      = calls w @ ([Call_NsCreate, Call_NewSSHAgent (NsDialer h), Call_NsEnter h] @ new @ [Call_nsExit])"
    using new(1) by (simp add: unfold nsExit_def logged_def created_def)
  show "\<exists>new. calls (snd (NewLocalCluster env w)) = calls w @ new \<and>
            count_list new Call_nsExit = 1 \<and> last new = Call_nsExit"
    using lc new(2)
    by (intro exI [of _ "[Call_NsCreate, Call_NewSSHAgent (NsDialer h), Call_NsEnter h] @ new @ [Call_nsExit]"]) simp
  show "thread_ns (snd (NewLocalCluster env w)) = thread_ns w"
    by (simp add: unfold nsExit_def logged_def)
qed

text \<open>
  The theorem where \<open>LinkSetUp\<close> fails inside \<open>NewTap\<close>, and where dnsmasq fails to
  start inside \<open>NewLocalCluster\<close>.
\<close>

theorem namespace_scope_released_once_witness:
  "count_list (calls (snd (NewTap (env_ok\<lparr>LinkSetUp_ret := Some (Error ''EPERM'')\<rparr>)
       (cluster_of [] 2379) ''br0'' world0))) Call_nsExit = 1 \<and>
   thread_ns (snd (NewTap (env_ok\<lparr>LinkSetUp_ret := Some (Error ''EPERM'')\<rparr>)
       (cluster_of [] 2379) ''br0'' world0)) = 1 \<and>
   count_list (calls (snd (NewLocalCluster (env_ok\<lparr>NewDnsmasq_ret := Inl (Error ''dnsmasq: exit 2'')\<rparr>)
       world0))) Call_nsExit = 1 \<and>
   thread_ns (snd (NewLocalCluster (env_ok\<lparr>NewDnsmasq_ret := Inl (Error ''dnsmasq: exit 2'')\<rparr>)
       world0)) = 1"
proof -
  let ?e1 = "env_ok\<lparr>LinkSetUp_ret := Some (Error ''EPERM'')\<rparr>"
  let ?e2 = "env_ok\<lparr>NewDnsmasq_ret := Inl (Error ''dnsmasq: exit 2'')\<rparr>"
  have n1: "NsEnter_ret ?e1 = None" by (simp add: env_ok_def)
  have n2: "NsEnter_ret ?e2 = None" by (simp add: env_ok_def)
  have c2: "NsCreate_ret ?e2 = Inr 7" by (simp add: env_ok_def)
  have a2: "NewSSHAgent_ret ?e2 = Inr \<lparr>Socket = ''/tmp/agent.sock''\<rparr>" by (simp add: env_ok_def)
  have t: "(\<exists>new. calls (snd (NewTap ?e1 (cluster_of [] 2379) ''br0'' world0)) = calls world0 @ new \<and>
              count_list new Call_nsExit = 1 \<and> last new = Call_nsExit) \<and>
           thread_ns (snd (NewTap ?e1 (cluster_of [] 2379) ''br0'' world0)) = thread_ns world0"
    using namespace_scope_released_once [OF n1, of "cluster_of [] 2379" "''br0''" world0] by blast
  have l: "(\<exists>new. calls (snd (NewLocalCluster ?e2 world0)) = calls world0 @ new \<and>
              count_list new Call_nsExit = 1 \<and> last new = Call_nsExit) \<and>
           thread_ns (snd (NewLocalCluster ?e2 world0)) = thread_ns world0"
    using namespace_scope_released_once [OF n2, of "cluster_of [] 2379" "''br0''" world0] c2 a2 by blast
  show ?thesis
    using t l by (auto simp: world0_def)
qed

end
